theory Spec2Isabelle
  imports Complex_Main "HOL-Library.Multiset"
begin

section \<open>The sparse (PLONK) constraint solver\<close>

text \<open>
  The solver of \<^verbatim>\<open>SparseR1CS\<close> (package \<^verbatim>\<open>cs\<close>): \<^verbatim>\<open>Solve\<close>,
  \<^verbatim>\<open>parallelSolve\<close>, \<^verbatim>\<open>computeHints\<close>, \<^verbatim>\<open>solveConstraint\<close> and
  \<^verbatim>\<open>checkConstraint\<close>.

  A field element (\<^verbatim>\<open>fr.Element\<close>, supplied by the numeric library) is a value of any
  type of class \<open>field\<close>. The library's \<^verbatim>\<open>Inverse\<close> sends zero to zero, and so do
  \<^verbatim>\<open>Div\<close> (a multiplication by the inverse) and \<^verbatim>\<open>BatchInvert\<close>; this is the
  convention of \<open>inverse\<close> and \<open>/\<close> in HOL.

  A Go panic ends the call without a result; it is the outcome \<open>Panic\<close>. An index outside a
  slice is such a panic.
\<close>

subsection \<open>Data\<close>

datatype Visibility = Public | Secret | Internal

record Term =
  CoeffID :: nat
  WireID :: nat
  VariableVisibility :: Visibility

text \<open>
  A sparse constraint \<^verbatim>\<open>SparseR1C{L, R, O, M [2]Term, K}\<close>; the fields are written
  \<open>cL\<close>, \<open>cR\<close>, \<open>cO\<close>, \<open>cM0\<close> (for \<^verbatim>\<open>M[0]\<close>), \<open>cM1\<close> (for \<^verbatim>\<open>M[1]\<close>) and \<open>cK\<close>.
\<close>

record SparseR1C =
  cL :: Term
  cR :: Term
  cO :: Term
  cM0 :: Term
  cM1 :: Term
  cK :: nat

record Hint =
  HintID :: nat
  Inputs :: "Term list"
  Wires :: "nat list"

text \<open>
  A hint callback maps the values of its inputs to its outputs, or fails (\<open>None\<close>).
\<close>

type_synonym 'a HintFunction = "'a list \<Rightarrow> 'a list option"

text \<open>
  The constraint system. \<^verbatim>\<open>MHints\<close> and \<^verbatim>\<open>MDebug\<close> are Go maps, read only through
  lookups; they are association lists read with \<open>map_of\<close>. The levels of the system
  (\<^verbatim>\<open>cs.Levels\<close>) are the field \<open>CsLevels\<close>.
\<close>

record 'a SparseR1CS =
  Constraints :: "SparseR1C list"
  Coefficients :: "'a list"
  NbPublicVariables :: nat
  NbSecretVariables :: nat
  NbInternalVariables :: nat
  CsLevels :: "nat list list"
  MHints :: "(nat \<times> Hint) list"
  MDebug :: "(nat \<times> nat) list"

record 'a ProverConfig =
  HintFunctions :: "nat \<rightharpoonup> 'a HintFunction"
  Force :: bool

datatype panic =
    IndexOutOfRange
  | LWireNotInstantiated
  | RWireNotInstantiated
  | SolvingSameWireTwice
  | SolverDidNotInstantiateAllWires

text \<open>
  The errors a constraint can end with: those of a hint, and the one \<^verbatim>\<open>checkConstraint\<close>
  builds with \<^verbatim>\<open>fmt.Errorf\<close> (\<open>ConstraintNotZero\<close>).
\<close>

datatype solve_error =
    MissingHintFunction nat
  | HintInputUnsolved nat
  | HintOutputArity nat nat
  | HintCallbackFailed
  | ConstraintNotZero

text \<open>
  \<^verbatim>\<open>UnsatisfiedConstraintError{CID, Err, DebugInfo}\<close>: the constraint, and either the
  error below it or the identifier of the debug record that was formatted.
\<close>

datatype error =
    InvalidWitnessSize nat nat
  | HintNotRegistered nat
  | UnsatisfiedConstraintError nat "solve_error option" "nat option"

datatype ('e, 'x, 's) res = Panic panic | Err 'e 's | Ok 'x 's

text \<open>What \<^verbatim>\<open>Solve\<close> gives its caller: the value vector and \<^verbatim>\<open>nil\<close> or an error.\<close>

datatype 'a solve_result = Panicked panic | Returned "'a list" "error option"

subsection \<open>The solution state\<close>

text \<open>
  The state of one call of \<^verbatim>\<open>Solve\<close>: \<^verbatim>\<open>values\<close>, \<^verbatim>\<open>solved\<close>, \<^verbatim>\<open>nbSolved\<close>, the
  coefficient table and the hint callbacks.
\<close>

record 'a solution =
  sol_values :: "'a list"
  sol_solved :: "bool list"
  sol_nbSolved :: nat
  sol_coefficients :: "'a list"
  sol_mHintsFunctions :: "nat \<rightharpoonup> 'a HintFunction"

text \<open>
  Modelled from the spec: \<^verbatim>\<open>newSolution\<close> is not among the sources. The spec:
  \<^verbatim>\<open>new(V, hintCallbacks, hintBindings, coefficients)\<close> builds the state, values zero and
  nothing solved, and fails with \<^verbatim>\<open>HintNotRegistered\<close> if a binding names a hint
  identifier with no callback.
\<close>

definition newSolution ::
  "nat \<Rightarrow> (nat \<rightharpoonup> 'a HintFunction) \<Rightarrow> (nat \<times> Hint) list \<Rightarrow> ('a::zero) list
    \<Rightarrow> 'a solution \<times> error option" where
  "newSolution nbWires hintFunctions hints coeffs =
     (let s = \<lparr> sol_values = replicate nbWires 0,
                sol_solved = replicate nbWires False,
                sol_nbSolved = 0,
                sol_coefficients = coeffs,
                sol_mHintsFunctions = hintFunctions \<rparr>
      in case filter (\<lambda>(w, h). hintFunctions (HintID h) = None) hints of
           [] \<Rightarrow> (s, None)
         | (w, h) # _ \<Rightarrow> (s, Some (HintNotRegistered (HintID h))))"

text \<open>
  Modelled from the spec: \<^verbatim>\<open>solution.set\<close> is not among the sources. The spec:
  \<^verbatim>\<open>set(wireID, v)\<close> has the precondition \<^verbatim>\<open>!solved[wireID]\<close>, assigns the value, marks
  the wire solved and increments \<^verbatim>\<open>nbSolved\<close>; writing a solved wire is a programming
  error, a panic.
\<close>

definition set_wire :: "'a solution \<Rightarrow> nat \<Rightarrow> 'a \<Rightarrow> (solve_error, unit, 'a solution) res" where
  "set_wire s wid v =
     (if \<not> (wid < length (sol_solved s) \<and> wid < length (sol_values s)) then Panic IndexOutOfRange
      else if sol_solved s ! wid then Panic SolvingSameWireTwice
      else Ok () (s\<lparr> sol_values := (sol_values s)[wid := v],
                     sol_solved := (sol_solved s)[wid := True],
                     sol_nbSolved := sol_nbSolved s + 1 \<rparr>))"

text \<open>
  Modelled from the spec: \<^verbatim>\<open>solution.computeTerm\<close> is not among the sources. The spec:
  it returns \<^verbatim>\<open>coefficients[term.coeffID] * values[term.wireID]\<close>; its fast paths for the
  reserved coefficients return the same product.
\<close>

definition computeTerm :: "('a::field) solution \<Rightarrow> Term \<Rightarrow> 'a" where
  "computeTerm s t = sol_coefficients s ! CoeffID t * sol_values s ! WireID t"

text \<open>
  Modelled from the spec: \<^verbatim>\<open>solution.isValid\<close> is not among the sources. The spec: true
  iff \<^verbatim>\<open>nbSolved == V\<close>, the number of wires.
\<close>

definition isValid :: "'a solution \<Rightarrow> bool" where
  "isValid s = (sol_nbSolved s = length (sol_values s))"

text \<open>Each output wire of a hint is written with \<^verbatim>\<open>set\<close>, in order.\<close>

fun set_wires ::
  "'a solution \<Rightarrow> nat list \<Rightarrow> 'a list \<Rightarrow> (solve_error, unit, 'a solution) res" where
  "set_wires s (w # ws) (v # vs) =
     (case set_wire s w v of
        Panic p \<Rightarrow> Panic p
      | Err e s' \<Rightarrow> Err e s'
      | Ok _ s' \<Rightarrow> set_wires s' ws vs)"
| "set_wires s _ _ = Ok () s"

text \<open>
  Modelled from the spec: \<^verbatim>\<open>solution.solveWithHint\<close> is not among the sources. The spec:
  every input term's wire is solved (otherwise \<^verbatim>\<open>HintInputUnsolved\<close>), each input term is
  evaluated, the callback is invoked (its failure is \<^verbatim>\<open>HintCallbackFailed\<close>), the length of
  its output equals the binding's arity (else \<^verbatim>\<open>HintOutputArity\<close>), and each output wire
  is \<^verbatim>\<open>set\<close>.
\<close>

definition solveWithHint ::
  "('a::field) solution \<Rightarrow> nat \<Rightarrow> Hint \<Rightarrow> (solve_error, unit, 'a solution) res" where
  "solveWithHint s vID h =
     (case filter (\<lambda>t. \<not> (WireID t < length (sol_solved s) \<and> sol_solved s ! WireID t)) (Inputs h) of
        t # _ \<Rightarrow> Err (HintInputUnsolved (WireID t)) s
      | [] \<Rightarrow>
         (case sol_mHintsFunctions s (HintID h) of
            None \<Rightarrow> Err (MissingHintFunction (HintID h)) s
          | Some f \<Rightarrow>
             (case f (map (computeTerm s) (Inputs h)) of
                None \<Rightarrow> Err HintCallbackFailed s
              | Some outputs \<Rightarrow>
                 if length outputs \<noteq> length (Wires h)
                 then Err (HintOutputArity (length (Wires h)) (length outputs)) s
                 else set_wires s (Wires h) outputs)))"

subsection \<open>Solving one constraint\<close>

text \<open>
  One of the three blocks of \<^verbatim>\<open>computeHints\<close>, for the position \<open>pos\<close> (L is 0, R is 1,
  O is 2): \<open>used\<close> is the test on the coefficient identifiers, \<open>wid\<close> the wire of the
  position, \<open>r\<close> the result so far. The test on \<^verbatim>\<open>solved\<close> is made only if \<open>used\<close> holds.
\<close>

definition hintBlock ::
  "('a::field) SparseR1CS \<Rightarrow> 'a solution \<Rightarrow> bool \<Rightarrow> nat \<Rightarrow> int \<Rightarrow> int
    \<Rightarrow> (solve_error, int, 'a solution) res" where
  "hintBlock cs s used wid pos r =
     (if used then
        (if \<not> wid < length (sol_solved s) then Panic IndexOutOfRange
         else if \<not> sol_solved s ! wid then
           (case map_of (MHints cs) wid of
              Some hint \<Rightarrow>
                (case solveWithHint s wid hint of
                   Panic p \<Rightarrow> Panic p
                 | Err e s' \<Rightarrow> Err e s'
                 | Ok _ s' \<Rightarrow> Ok r s')
            | None \<Rightarrow> Ok pos s)
         else Ok r s)
      else Ok r s)"

definition computeHints ::
  "('a::field) SparseR1CS \<Rightarrow> SparseR1C \<Rightarrow> 'a solution \<Rightarrow> (solve_error, int, 'a solution) res" where
  "computeHints cs c s =
     (let lID = WireID (cL c); rID = WireID (cR c); oID = WireID (cO c) in
      case hintBlock cs s (CoeffID (cL c) \<noteq> 0 \<or> CoeffID (cM0 c) \<noteq> 0) lID 0 (- 1) of
        Panic p \<Rightarrow> Panic p
      | Err e s1 \<Rightarrow> Err e s1
      | Ok r1 s1 \<Rightarrow>
         (case hintBlock cs s1 (CoeffID (cR c) \<noteq> 0 \<or> CoeffID (cM1 c) \<noteq> 0) rID 1 r1 of
            Panic p \<Rightarrow> Panic p
          | Err e s2 \<Rightarrow> Err e s2
          | Ok r2 s2 \<Rightarrow> hintBlock cs s2 (CoeffID (cO c) \<noteq> 0) oID 2 r2))"

text \<open>
  \<^verbatim>\<open>solveConstraint\<close>. In the branch for R (\<open>lro = 1\<close>) and in the branch for L
  (\<open>lro = 0\<close>) the source ends with \<^verbatim>\<open>solution.set(c.L.WireID(), num)\<close>.
\<close>

definition solveConstraint ::
  "('a::field) SparseR1CS \<Rightarrow> SparseR1C \<Rightarrow> 'a solution \<Rightarrow> 'a list
    \<Rightarrow> (solve_error, unit, 'a solution) res" where
  "solveConstraint cs c s coefficientsNegInv =
     (case computeHints cs c s of
        Panic p \<Rightarrow> Panic p
      | Err e s1 \<Rightarrow> Err e s1
      | Ok lro s1 \<Rightarrow>
         let n = length (Coefficients cs) in
         if lro = - 1 then Ok () s1
         else if lro = 1 then
           (if \<not> WireID (cL c) < length (sol_solved s1) then Panic IndexOutOfRange
            else if \<not> sol_solved s1 ! WireID (cL c) then Panic LWireNotInstantiated
            else if \<not> (CoeffID (cM0 c) < n \<and> CoeffID (cM1 c) < n \<and> CoeffID (cL c) < n
                      \<and> CoeffID (cR c) < n \<and> WireID (cL c) < length (sol_values s1) \<and> cK c < n)
              then Panic IndexOutOfRange
            else
              let u3 = Coefficients cs ! CoeffID (cM0 c) * Coefficients cs ! CoeffID (cM1 c);
                  u2 = Coefficients cs ! CoeffID (cR c);
                  den = u3 * sol_values s1 ! WireID (cL c) + u2;
                  v1 = computeTerm s1 (cL c);
                  v2 = computeTerm s1 (cO c);
                  num = v1 + v2 + Coefficients cs ! cK c
              in set_wire s1 (WireID (cL c)) (- (num / den)))
         else if lro = 0 then
           (if \<not> WireID (cR c) < length (sol_solved s1) then Panic IndexOutOfRange
            else if \<not> sol_solved s1 ! WireID (cR c) then Panic RWireNotInstantiated
            else if \<not> (CoeffID (cM0 c) < n \<and> CoeffID (cM1 c) < n \<and> CoeffID (cL c) < n
                      \<and> CoeffID (cR c) < n \<and> WireID (cR c) < length (sol_values s1) \<and> cK c < n)
              then Panic IndexOutOfRange
            else
              let u3 = Coefficients cs ! CoeffID (cM0 c) * Coefficients cs ! CoeffID (cM1 c);
                  u1 = Coefficients cs ! CoeffID (cL c);
                  den = u3 * sol_values s1 ! WireID (cR c) + u1;
                  v1 = computeTerm s1 (cR c);
                  v2 = computeTerm s1 (cO c);
                  num = v1 + v2 + Coefficients cs ! cK c
              in set_wire s1 (WireID (cL c)) (- (num / den)))
         else
           (if \<not> (cK c < n \<and> CoeffID (cO c) < length coefficientsNegInv) then Panic IndexOutOfRange
            else
              let l = computeTerm s1 (cL c);
                  r = computeTerm s1 (cR c);
                  m0 = computeTerm s1 (cM0 c);
                  m1 = computeTerm s1 (cM1 c);
                  ov = (m0 * m1 + l + r + Coefficients cs ! cK c)
                         * coefficientsNegInv ! CoeffID (cO c)
              in set_wire s1 (WireID (cO c)) ov))"

text \<open>\<^verbatim>\<open>checkConstraint\<close>: the residue of the constraint, and the test that it is zero.\<close>

definition residue :: "('a::field) SparseR1CS \<Rightarrow> SparseR1C \<Rightarrow> 'a solution \<Rightarrow> 'a" where
  "residue cs c s =
     computeTerm s (cM0 c) * computeTerm s (cM1 c) + computeTerm s (cL c) + computeTerm s (cR c)
       + computeTerm s (cO c) + Coefficients cs ! cK c"

definition checkConstraint ::
  "('a::field) SparseR1CS \<Rightarrow> SparseR1C \<Rightarrow> 'a solution \<Rightarrow> (solve_error, unit, 'a solution) res" where
  "checkConstraint cs c s =
     (if \<not> cK c < length (Coefficients cs) then Panic IndexOutOfRange
      else if residue cs c s \<noteq> 0 then Err ConstraintNotZero s
      else Ok () s)"

subsection \<open>The levels and the entry point\<close>

text \<open>
  The body of the loops of \<^verbatim>\<open>parallelSolve\<close>: constraint \<open>i\<close> is solved, then checked.
  An error of \<^verbatim>\<open>solveConstraint\<close> and an error of \<^verbatim>\<open>checkConstraint\<close> are both wrapped
  in an \<^verbatim>\<open>UnsatisfiedConstraintError\<close> for the constraint.
\<close>

definition solveAndCheck ::
  "('a::field) SparseR1CS \<Rightarrow> 'a list \<Rightarrow> nat \<Rightarrow> 'a solution \<Rightarrow> (error, unit, 'a solution) res" where
  "solveAndCheck cs coefficientsNegInv i s =
     (if \<not> i < length (Constraints cs) then Panic IndexOutOfRange
      else
        case solveConstraint cs (Constraints cs ! i) s coefficientsNegInv of
          Panic p \<Rightarrow> Panic p
        | Err e s1 \<Rightarrow> Err (UnsatisfiedConstraintError i (Some e) None) s1
        | Ok _ s1 \<Rightarrow>
           (case checkConstraint cs (Constraints cs ! i) s1 of
              Panic p \<Rightarrow> Panic p
            | Err e s2 \<Rightarrow>
               (case map_of (MDebug cs) i of
                  Some dID \<Rightarrow> Err (UnsatisfiedConstraintError i None (Some dID)) s2
                | None \<Rightarrow> Err (UnsatisfiedConstraintError i (Some e) None) s2)
            | Ok _ s2 \<Rightarrow> Ok () s2))"

text \<open>
  A task is a slice of constraint indices, solved in order; the first error ends it.
\<close>

fun solveTask ::
  "('a::field) SparseR1CS \<Rightarrow> 'a list \<Rightarrow> nat list \<Rightarrow> 'a solution \<Rightarrow> (error, unit, 'a solution) res" where
  "solveTask cs coefficientsNegInv [] s = Ok () s"
| "solveTask cs coefficientsNegInv (i # t) s =
     (case solveAndCheck cs coefficientsNegInv i s of
        Panic p \<Rightarrow> Panic p
      | Err e s1 \<Rightarrow> Err e s1
      | Ok _ s1 \<Rightarrow> solveTask cs coefficientsNegInv t s1)"

text \<open>
  \<^verbatim>\<open>parallelSolve\<close> takes the levels in order. A level of at most \<^verbatim>\<open>minWorkPerCPU\<close> = 50
  constraints is run inline, in the order of the level. A longer level is cut into tasks
  for the worker pool; the model is the pool of one worker (\<^verbatim>\<open>runtime.NumCPU()\<close> = 1),
  for which the level is a single task, run in the order of the level, whose error is
  read from the channel once the task is done.
\<close>

fun solveLevels ::
  "('a::field) SparseR1CS \<Rightarrow> 'a list \<Rightarrow> nat list list \<Rightarrow> 'a solution
    \<Rightarrow> (error, unit, 'a solution) res" where
  "solveLevels cs coefficientsNegInv [] s = Ok () s"
| "solveLevels cs coefficientsNegInv (level # levels) s =
     (case (if length level \<le> 50 then solveTask cs coefficientsNegInv level s
            else solveTask cs coefficientsNegInv level s) of
        Panic p \<Rightarrow> Panic p
      | Err e s1 \<Rightarrow> Err e s1
      | Ok _ s1 \<Rightarrow> solveLevels cs coefficientsNegInv levels s1)"

definition parallelSolve ::
  "('a::field) SparseR1CS \<Rightarrow> 'a solution \<Rightarrow> 'a list \<Rightarrow> (error, unit, 'a solution) res" where
  "parallelSolve cs s coefficientsNegInv = solveLevels cs coefficientsNegInv (CsLevels cs) s"

text \<open>
  \<^verbatim>\<open>fr.BatchInvert\<close> (of the numeric library) returns the inverses of the elements of a
  slice, a zero element staying zero.
\<close>

definition BatchInvert :: "('a::field) list \<Rightarrow> 'a list" where
  "BatchInvert a = map inverse a"

text \<open>The table \<^verbatim>\<open>coefficientsNegInv\<close> that \<^verbatim>\<open>Solve\<close> builds.\<close>

definition coefficientsNegInv :: "('a::field) SparseR1CS \<Rightarrow> 'a list" where
  "coefficientsNegInv cs = map uminus (BatchInvert (Coefficients cs))"

text \<open>
  The witness is copied into the first wires, which are marked solved and counted.
\<close>

definition fillWitness :: "'a solution \<Rightarrow> 'a list \<Rightarrow> 'a solution" where
  "fillWitness s witness =
     (let k = min (length witness) (length (sol_values s)) in
      s\<lparr> sol_values := take k witness @ drop k (sol_values s),
         sol_solved := replicate (length witness) True @ drop (length witness) (sol_solved s),
         sol_nbSolved := sol_nbSolved s + length witness \<rparr>)"

text \<open>
  \<^verbatim>\<open>Solve\<close>. The option \<^verbatim>\<open>opt\<close> is read for its hint functions (and for the logger, which
  does not change the result); the source does not read \<^verbatim>\<open>opt.Force\<close>.
\<close>

definition Solve ::
  "('a::field) SparseR1CS \<Rightarrow> 'a list \<Rightarrow> 'a ProverConfig \<Rightarrow> 'a solve_result" where
  "Solve cs witness opt =
     (let nbVariables = NbInternalVariables cs + NbSecretVariables cs + NbPublicVariables cs;
          expectedWitnessSize = NbPublicVariables cs + NbSecretVariables cs
      in
      if length witness \<noteq> expectedWitnessSize
      then Returned (replicate nbVariables 0)
             (Some (InvalidWitnessSize (length witness) expectedWitnessSize))
      else
        case newSolution nbVariables (HintFunctions opt) (MHints cs) (Coefficients cs) of
          (s0, Some err) \<Rightarrow> Returned (sol_values s0) (Some err)
        | (s0, None) \<Rightarrow>
           (case parallelSolve cs (fillWitness s0 witness) (coefficientsNegInv cs) of
              Panic p \<Rightarrow> Panicked p
            | Err err s1 \<Rightarrow> Returned (sol_values s1) (Some err)
            | Ok _ s1 \<Rightarrow>
               if \<not> isValid s1 then Panicked SolverDidNotInstantiateAllWires
               else Returned (sol_values s1) None))"

subsection \<open>What a step leaves in place\<close>

text \<open>
  \<open>preserves s s'\<close>: the slices keep their lengths, and a wire that is solved in \<open>s\<close> is
  solved in \<open>s'\<close> with the same value.
\<close>

definition preserves :: "'a solution \<Rightarrow> 'a solution \<Rightarrow> bool" where
  "preserves s s' =
     (length (sol_values s') = length (sol_values s) \<and>
      length (sol_solved s') = length (sol_solved s) \<and>
      (\<forall>i < length (sol_solved s). sol_solved s ! i \<longrightarrow>
          sol_solved s' ! i \<and> sol_values s' ! i = sol_values s ! i))"

section \<open>Example inputs\<close>

text \<open>
  Small constraint systems over the rationals, with the coefficient table
  \<open>[0, 1, 2, -1]\<close>. Only \<open>0\<close>, \<open>1\<close>, \<open>2\<close> and \<open>-1\<close> and sums and products of small
  integers occur, so each computation is the same in every field of characteristic other
  than a small prime.

  \<open>exampleR\<close>: the constraint \<open>x0 + x1 = 0\<close> with \<open>x0\<close> public and \<open>x1\<close> the wire of
  the R term. \<open>exampleO\<close>: \<open>2 * x0 - x1 + 1 = 0\<close> with \<open>x1\<close> the wire of the O term.
  \<open>exampleDen0\<close>: \<open>x0 + x0 * x1 = 0\<close> with \<open>x1\<close> the wire of the R term, for \<open>x0 = 0\<close>.
  \<open>exampleUnsat\<close>: \<open>2 * x0 + 1 = 0\<close> with \<open>x0\<close> public. \<open>exampleUnsolved\<close>: \<open>exampleO\<close>
  with one more internal wire, which no constraint mentions.
\<close>

definition tm :: "nat \<Rightarrow> nat \<Rightarrow> Term" where
  "tm c w = \<lparr> CoeffID = c, WireID = w, VariableVisibility = Internal \<rparr>"

definition exampleCoefficients :: "rat list" where
  "exampleCoefficients = [0, 1, 2, - 1]"

definition noHints :: "rat ProverConfig" where
  "noHints = \<lparr> HintFunctions = Map.empty, Force = False \<rparr>"

definition exampleState :: "rat solution" where
  "exampleState = \<lparr> sol_values = [5, 0], sol_solved = [True, False], sol_nbSolved = 1,
      sol_coefficients = exampleCoefficients, sol_mHintsFunctions = Map.empty \<rparr>"

definition constraintR :: SparseR1C where
  "constraintR = \<lparr> cL = tm 1 0, cR = tm 1 1, cO = tm 0 0, cM0 = tm 0 0, cM1 = tm 0 1, cK = 0 \<rparr>"

definition exampleR :: "rat SparseR1CS" where
  "exampleR = \<lparr> Constraints = [constraintR],
     Coefficients = exampleCoefficients, NbPublicVariables = 1, NbSecretVariables = 0,
     NbInternalVariables = 1, CsLevels = [[0]], MHints = [], MDebug = [] \<rparr>"

definition constraintO :: SparseR1C where
  "constraintO = \<lparr> cL = tm 2 0, cR = tm 0 0, cO = tm 3 1, cM0 = tm 0 0, cM1 = tm 0 0, cK = 1 \<rparr>"

definition exampleO :: "rat SparseR1CS" where
  "exampleO = \<lparr> Constraints = [constraintO],
     Coefficients = exampleCoefficients, NbPublicVariables = 1, NbSecretVariables = 0,
     NbInternalVariables = 1, CsLevels = [[0]], MHints = [], MDebug = [] \<rparr>"

definition constraintDen0 :: SparseR1C where
  "constraintDen0 = \<lparr> cL = tm 1 0, cR = tm 0 1, cO = tm 0 0, cM0 = tm 1 0, cM1 = tm 1 1, cK = 0 \<rparr>"

definition exampleDen0 :: "rat SparseR1CS" where
  "exampleDen0 = \<lparr> Constraints = [constraintDen0],
     Coefficients = exampleCoefficients, NbPublicVariables = 1, NbSecretVariables = 0,
     NbInternalVariables = 1, CsLevels = [[0]], MHints = [], MDebug = [] \<rparr>"

definition stateDen0 :: "rat solution" where
  "stateDen0 = \<lparr> sol_values = [0, 0], sol_solved = [True, False], sol_nbSolved = 1,
      sol_coefficients = exampleCoefficients, sol_mHintsFunctions = Map.empty \<rparr>"

definition constraintUnsat :: SparseR1C where
  "constraintUnsat = \<lparr> cL = tm 2 0, cR = tm 0 0, cO = tm 0 0, cM0 = tm 0 0, cM1 = tm 0 0, cK = 1 \<rparr>"

definition exampleUnsat :: "rat SparseR1CS" where
  "exampleUnsat = \<lparr> Constraints = [constraintUnsat],
     Coefficients = exampleCoefficients, NbPublicVariables = 1, NbSecretVariables = 0,
     NbInternalVariables = 0, CsLevels = [[0]], MHints = [], MDebug = [] \<rparr>"

definition exampleUnsolved :: "rat SparseR1CS" where
  "exampleUnsolved = exampleO \<lparr> NbInternalVariables := 2 \<rparr>"

definition stateUnsolved :: "rat solution" where
  "stateUnsolved = \<lparr> sol_values = [5, 11, 0], sol_solved = [True, True, False], sol_nbSolved = 2,
      sol_coefficients = exampleCoefficients, sol_mHintsFunctions = Map.empty \<rparr>"

section \<open>Properties of the solver\<close>

lemmas solver_defs = Solve_def newSolution_def fillWitness_def parallelSolve_def solveAndCheck_def
  solveConstraint_def computeHints_def hintBlock_def set_wire_def computeTerm_def checkConstraint_def
  residue_def coefficientsNegInv_def BatchInvert_def isValid_def solveWithHint_def

lemmas example_defs = tm_def exampleCoefficients_def noHints_def exampleState_def constraintR_def
  exampleR_def constraintO_def exampleO_def constraintDen0_def exampleDen0_def stateDen0_def
  constraintUnsat_def exampleUnsat_def exampleUnsolved_def

subsection \<open>Every step preserves the solved wires\<close>

lemma preserves_refl: "preserves s s"
  by (simp add: preserves_def)

lemma preserves_trans: "preserves s s1 \<Longrightarrow> preserves s1 s2 \<Longrightarrow> preserves s s2"
  by (simp add: preserves_def)

lemma set_wire_Ok:
  "set_wire s w v = Ok x s' \<Longrightarrow>
     w < length (sol_solved s) \<and> w < length (sol_values s) \<and> \<not> sol_solved s ! w \<and>
     s' = s\<lparr> sol_values := (sol_values s)[w := v], sol_solved := (sol_solved s)[w := True],
            sol_nbSolved := sol_nbSolved s + 1 \<rparr>"
  by (auto simp: set_wire_def split: if_splits)

lemma set_wire_not_Err: "set_wire s w v \<noteq> Err e s'"
  by (simp add: set_wire_def)

lemma set_wire_preserves: "set_wire s w v = Ok x s' \<Longrightarrow> preserves s s'"
  by (drule set_wire_Ok) (auto simp: preserves_def nth_list_update)

lemma set_wires_preserves: "set_wires s ws vs = Ok x s' \<Longrightarrow> preserves s s'"
proof (induction s ws vs arbitrary: s' rule: set_wires.induct)
  case (1 s w ws v vs)
  then show ?case
    by (auto split: res.splits dest: set_wire_preserves intro: preserves_trans)
qed (simp_all add: preserves_refl)

lemma solveWithHint_preserves: "solveWithHint s w h = Ok x s' \<Longrightarrow> preserves s s'"
  by (auto simp: solveWithHint_def split: list.splits option.splits if_splits
      dest: set_wires_preserves)

lemma hintBlock_Ok:
  "hintBlock cs s used wid pos r = Ok r' s' \<Longrightarrow>
     (r' = r \<and> preserves s s') \<or>
     (r' = pos \<and> s' = s \<and> used \<and> wid < length (sol_solved s) \<and> \<not> sol_solved s ! wid)"
  by (auto simp: hintBlock_def preserves_refl split: if_splits option.splits res.splits
      dest: solveWithHint_preserves)

lemma hintBlock_preserves: "hintBlock cs s used wid pos r = Ok r' s' \<Longrightarrow> preserves s s'"
  by (auto dest: hintBlock_Ok simp: preserves_refl)

lemma computeHints_preserves: "computeHints cs c s = Ok r s' \<Longrightarrow> preserves s s'"
  by (auto simp: computeHints_def Let_def split: res.splits
      dest!: hintBlock_preserves intro: preserves_trans)

lemma computeHints_O:
  assumes "computeHints cs c s = Ok 2 s'"
  shows "WireID (cO c) < length (sol_solved s') \<and> \<not> sol_solved s' ! WireID (cO c)"
proof -
  from assms obtain r1 s1 r2 s2 where
    b1: "hintBlock cs s (CoeffID (cL c) \<noteq> 0 \<or> CoeffID (cM0 c) \<noteq> 0) (WireID (cL c)) 0 (- 1) = Ok r1 s1"
    and b2: "hintBlock cs s1 (CoeffID (cR c) \<noteq> 0 \<or> CoeffID (cM1 c) \<noteq> 0) (WireID (cR c)) 1 r1 = Ok r2 s2"
    and b3: "hintBlock cs s2 (CoeffID (cO c) \<noteq> 0) (WireID (cO c)) 2 r2 = Ok 2 s'"
    by (auto simp: computeHints_def Let_def split: res.splits)
  from hintBlock_Ok [OF b1] have "r1 = - 1 \<or> r1 = 0" by auto
  with hintBlock_Ok [OF b2] have "r2 \<noteq> 2" by auto
  with hintBlock_Ok [OF b3] show ?thesis by auto
qed

lemma solveConstraint_preserves: "solveConstraint cs c s n = Ok x s' \<Longrightarrow> preserves s s'"
  by (auto simp: solveConstraint_def Let_def split: res.splits if_splits
      dest!: computeHints_preserves set_wire_preserves intro: preserves_trans)

lemma checkConstraint_Ok: "checkConstraint cs c s = Ok x s' \<Longrightarrow> s' = s"
  by (auto simp: checkConstraint_def split: if_splits)

lemma solveAndCheck_preserves: "solveAndCheck cs n i s = Ok x s' \<Longrightarrow> preserves s s'"
  by (auto simp: solveAndCheck_def split: res.splits if_splits option.splits
      dest!: solveConstraint_preserves checkConstraint_Ok)

lemma solveTask_preserves: "solveTask cs n t s = Ok x s' \<Longrightarrow> preserves s s'"
proof (induction t arbitrary: s)
  case Nil
  then show ?case by (simp add: preserves_refl)
next
  case (Cons i t)
  then show ?case
    by (auto split: res.splits dest!: solveAndCheck_preserves intro: preserves_trans)
qed

lemma solveLevels_preserves: "solveLevels cs n ls s = Ok x s' \<Longrightarrow> preserves s s'"
proof (induction ls arbitrary: s)
  case Nil
  then show ?case by (simp add: preserves_refl)
next
  case (Cons l ls)
  then show ?case
    by (auto split: res.splits dest!: solveTask_preserves intro: preserves_trans)
qed

lemma newSolution_lengths:
  "newSolution v f h c = (s, e) \<Longrightarrow> length (sol_values s) = v \<and> length (sol_solved s) = v"
  by (auto simp: newSolution_def Let_def split: list.splits)

subsection \<open>Solving for R\<close>

text \<open>
  Claim C1. When the remaining unknown of a constraint is its R position, the value
  \<open>- num / den\<close> is to be assigned to the wire of the R term. The source assigns it with
  \<^verbatim>\<open>solution.set(c.L.WireID(), num)\<close>, to the wire of the L term, which the guard just
  above requires to be solved: whenever the unknown is R, \<^verbatim>\<open>solveConstraint\<close> does not
  complete, and the wire of R is not written.
\<close>

theorem C1_R_never_assigned:
  assumes "computeHints cs c s = Ok 1 s1"
  shows "solveConstraint cs c s n \<noteq> Ok x s'"
  using assms by (simp add: solveConstraint_def Let_def set_wire_def)

text \<open>
  On \<open>exampleR\<close> (\<open>x0 + x1 = 0\<close>, \<open>x0 = 5\<close>) the unknown is R, and the call ends in the
  panic of a wire written twice, where \<open>x1 = -5\<close> was to be assigned.
\<close>

theorem C1_failing_input:
  "computeHints exampleR constraintR exampleState = Ok 1 exampleState
   \<and> solveConstraint exampleR constraintR exampleState (coefficientsNegInv exampleR)
       = Panic SolvingSameWireTwice
   \<and> Solve exampleR [5] noHints = Panicked SolvingSameWireTwice
   \<and> (\<forall>x s'. solveConstraint exampleR constraintR exampleState (coefficientsNegInv exampleR)
          \<noteq> Ok x s')"
proof -
  have h: "computeHints exampleR constraintR exampleState = Ok 1 exampleState"
    by (simp add: solver_defs example_defs)
  have "solveConstraint exampleR constraintR exampleState (coefficientsNegInv exampleR)
          = Panic SolvingSameWireTwice"
    "Solve exampleR [5] noHints = Panicked SolvingSameWireTwice"
    by (simp_all add: solver_defs example_defs)
  with C1_R_never_assigned [OF h] h show ?thesis by blast
qed

text \<open>
  Claim C3, as stated: solving for R with a zero denominator returns an
  \<^verbatim>\<open>UnsatisfiedConstraint\<close> error. On \<open>exampleDen0\<close> the unknown is R and the denominator
  \<open>qM * xL + qR\<close> is zero; \<^verbatim>\<open>Solve\<close> returns no error.
\<close>

theorem C3_counterexample:
  "computeHints exampleDen0 constraintDen0 stateDen0 = Ok 1 stateDen0
   \<and> Coefficients exampleDen0 ! CoeffID (cM0 constraintDen0)
        * Coefficients exampleDen0 ! CoeffID (cM1 constraintDen0)
        * sol_values stateDen0 ! WireID (cL constraintDen0)
      + Coefficients exampleDen0 ! CoeffID (cR constraintDen0) = 0
   \<and> Solve exampleDen0 [0] noHints = Panicked SolvingSameWireTwice"
  by (simp add: solver_defs example_defs)

text \<open>
  Claim C3, amended. \<^verbatim>\<open>solveConstraint\<close> does not test the denominator: when the unknown
  is R it returns no error, whatever the denominator is. (The quotient is taken by
  \<^verbatim>\<open>Div\<close>, for which a zero denominator gives zero.)
\<close>

theorem C3_no_error_for_R:
  assumes "computeHints cs c s = Ok 1 s1"
  shows "solveConstraint cs c s n \<noteq> Err e s'"
  using assms by (simp add: solveConstraint_def Let_def set_wire_not_Err)

theorem C3_witness:
  "computeHints exampleDen0 constraintDen0 stateDen0 = Ok 1 stateDen0
   \<and> (\<forall>e s'. solveConstraint exampleDen0 constraintDen0 stateDen0 (coefficientsNegInv exampleDen0)
          \<noteq> Err e s')"
proof -
  have h: "computeHints exampleDen0 constraintDen0 stateDen0 = Ok 1 stateDen0"
    by (simp add: solver_defs example_defs)
  from C3_no_error_for_R [OF h] h show ?thesis by blast
qed

subsection \<open>Solving for O\<close>

text \<open>
  Claim C9. When the remaining unknown is the O position, \<^verbatim>\<open>solveConstraint\<close> sets the
  wire of the O term to \<open>- (m0 * m1 + l + r + coeffs[K]) * coeffs[O.coeffID]^(-1)\<close>, marks it
  solved and counts it, where \<open>m0\<close>, \<open>m1\<close>, \<open>l\<close>, \<open>r\<close> are the values of the terms
  \<^verbatim>\<open>M[0]\<close>, \<^verbatim>\<open>M[1]\<close>, \<^verbatim>\<open>L\<close>, \<^verbatim>\<open>R\<close>; the factor it multiplies by is the entry of
  \<open>coefficientsNegInv\<close>, which is \<open>- coeffs[O.coeffID]^(-1)\<close> (zero for a zero coefficient).
\<close>

theorem C9_solve_O:
  assumes ch: "computeHints cs c s = Ok 2 s1"
    and len: "length (sol_values s) = length (sol_solved s)"
    and kr: "cK c < length (Coefficients cs)"
    and cr: "CoeffID (cO c) < length (Coefficients cs)"
  shows "solveConstraint cs c s (coefficientsNegInv cs) =
           Ok () (s1\<lparr> sol_values := (sol_values s1)[WireID (cO c) :=
                        - ((computeTerm s1 (cM0 c) * computeTerm s1 (cM1 c) + computeTerm s1 (cL c)
                             + computeTerm s1 (cR c) + Coefficients cs ! cK c)
                           * inverse (Coefficients cs ! CoeffID (cO c)))],
                      sol_solved := (sol_solved s1)[WireID (cO c) := True],
                      sol_nbSolved := sol_nbSolved s1 + 1 \<rparr>)
         \<and> coefficientsNegInv cs ! CoeffID (cO c) = - inverse (Coefficients cs ! CoeffID (cO c))"
proof -
  from computeHints_O [OF ch] have o: "WireID (cO c) < length (sol_solved s1)"
    "\<not> sol_solved s1 ! WireID (cO c)" by auto
  from computeHints_preserves [OF ch] len have "length (sol_values s1) = length (sol_solved s1)"
    by (simp add: preserves_def)
  with o have sw: "set_wire s1 (WireID (cO c)) v =
      Ok () (s1\<lparr> sol_values := (sol_values s1)[WireID (cO c) := v],
                 sol_solved := (sol_solved s1)[WireID (cO c) := True],
                 sol_nbSolved := sol_nbSolved s1 + 1 \<rparr>)" for v
    by (simp add: set_wire_def)
  have ni: "coefficientsNegInv cs ! CoeffID (cO c) = - inverse (Coefficients cs ! CoeffID (cO c))"
    using cr by (simp add: coefficientsNegInv_def BatchInvert_def)
  have ln: "CoeffID (cO c) < length (coefficientsNegInv cs)"
    using cr by (simp add: coefficientsNegInv_def BatchInvert_def)
  show ?thesis
    using ch kr ln by (simp add: solveConstraint_def Let_def sw ni)
qed

theorem C9_witness:
  "computeHints exampleO constraintO exampleState = Ok 2 exampleState
   \<and> solveConstraint exampleO constraintO exampleState (coefficientsNegInv exampleO)
       = Ok () (exampleState \<lparr> sol_values := [5, 11], sol_solved := [True, True], sol_nbSolved := 2 \<rparr>)"
proof -
  have h: "computeHints exampleO constraintO exampleState = Ok 2 exampleState"
    by (simp add: solver_defs example_defs)
  have l: "length (sol_values exampleState) = length (sol_solved exampleState)"
    by (simp add: example_defs)
  have k: "cK constraintO < length (Coefficients exampleO)"
    "CoeffID (cO constraintO) < length (Coefficients exampleO)"
    by (simp_all add: example_defs)
  from C9_solve_O [OF h l k] h show ?thesis
    by (simp add: computeTerm_def example_defs)
qed

subsection \<open>The witness is not overwritten\<close>

text \<open>
  Claim C2. If \<^verbatim>\<open>Solve\<close> succeeds on a witness, the first entries of the returned vector,
  as many as the witness has, are the witness.
\<close>

theorem C2_witness_prefix:
  assumes ok: "Solve cs witness opt = Returned vs None"
  shows "take (length witness) vs = witness"
proof -
  let ?v = "NbInternalVariables cs + NbSecretVariables cs + NbPublicVariables cs"
  from ok have len: "length witness = NbPublicVariables cs + NbSecretVariables cs"
    by (auto simp: Solve_def Let_def split: if_splits)
  obtain s0 e0 where ns: "newSolution ?v (HintFunctions opt) (MHints cs) (Coefficients cs) = (s0, e0)"
    by (cases "newSolution ?v (HintFunctions opt) (MHints cs) (Coefficients cs)")
  from newSolution_lengths [OF ns] have l0: "length (sol_values s0) = ?v" "length (sol_solved s0) = ?v"
    by auto
  from ok len ns obtain s1 where
    ps: "parallelSolve cs (fillWitness s0 witness) (coefficientsNegInv cs) = Ok () s1"
    and vs: "vs = sol_values s1"
    by (auto simp: Solve_def Let_def split: if_splits option.splits res.splits)
  from ps have pr: "preserves (fillWitness s0 witness) s1"
    by (auto simp: parallelSolve_def dest: solveLevels_preserves)
  have le: "length witness \<le> ?v" using len by simp
  have fv: "sol_values (fillWitness s0 witness) = witness @ drop (length witness) (sol_values s0)"
    using le l0 by (simp add: fillWitness_def Let_def min_def)
  have fs: "sol_solved (fillWitness s0 witness)
              = replicate (length witness) True @ drop (length witness) (sol_solved s0)"
    by (simp add: fillWitness_def Let_def)
  show ?thesis
  proof (rule nth_equalityI)
    show "length (take (length witness) vs) = length witness"
      using pr le l0 fv by (simp add: vs preserves_def)
  next
    fix i
    assume "i < length (take (length witness) vs)"
    then have i: "i < length witness" by simp
    then have "sol_solved (fillWitness s0 witness) ! i" "i < length (sol_solved (fillWitness s0 witness))"
      using le l0 by (simp_all add: fs nth_append)
    with pr have "sol_values s1 ! i = sol_values (fillWitness s0 witness) ! i"
      by (simp add: preserves_def)
    with i show "take (length witness) vs ! i = witness ! i"
      by (simp add: vs fv nth_append)
  qed
qed

theorem C2_witness:
  "Solve exampleO [5] noHints = Returned [5, 11] None \<and> take (length [5::rat]) [5, 11] = [5::rat]"
proof -
  have h: "Solve exampleO [5] noHints = Returned [5, 11] None"
    by (simp add: solver_defs example_defs)
  from C2_witness_prefix [OF h] h show ?thesis by simp
qed

subsection \<open>The force option\<close>

text \<open>
  Claim C4, as stated: with the option \<^verbatim>\<open>force\<close> set, the check after the assignment is
  skipped and no \<^verbatim>\<open>UnsatisfiedConstraint\<close> is returned. On \<open>exampleUnsat\<close>
  (\<open>2 * x0 + 1 = 0\<close> with \<open>x0 = 0\<close>) \<^verbatim>\<open>Solve\<close> with \<^verbatim>\<open>force\<close> set returns the error.
\<close>

theorem C4_counterexample:
  "Solve exampleUnsat [0] (noHints \<lparr> Force := True \<rparr>)
     = Returned [0] (Some (UnsatisfiedConstraintError 0 (Some ConstraintNotZero) None))"
  by (simp add: solver_defs example_defs)

text \<open>
  Claim C4, amended. \<^verbatim>\<open>Solve\<close> does not read the option \<^verbatim>\<open>force\<close>: its result, the
  value vector and the error, is the same with the option set and unset.
\<close>

theorem C4_force:
  "Solve cs witness (opt\<lparr> Force := True \<rparr>) = Solve cs witness (opt\<lparr> Force := False \<rparr>)"
  by (simp add: Solve_def cong: if_cong)

theorem C4_witness:
  "Solve exampleUnsat [0] (noHints \<lparr> Force := False \<rparr>)
     = Returned [0] (Some (UnsatisfiedConstraintError 0 (Some ConstraintNotZero) None))
   \<and> Solve exampleUnsat [0] (noHints \<lparr> Force := True \<rparr>)
       = Solve exampleUnsat [0] (noHints \<lparr> Force := False \<rparr>)"
proof -
  have "Solve exampleUnsat [0] (noHints \<lparr> Force := False \<rparr>)
     = Returned [0] (Some (UnsatisfiedConstraintError 0 (Some ConstraintNotZero) None))"
    by (simp add: solver_defs example_defs)
  with C4_force [of exampleUnsat "[0]" noHints] show ?thesis by simp
qed

subsection \<open>Wires left unsolved\<close>

text \<open>
  Claim C5, as stated: when a wire is left unsolved after the last level, \<^verbatim>\<open>Solve\<close>
  returns an error to its caller. On \<open>exampleUnsolved\<close> a wire is left unsolved and
  \<^verbatim>\<open>Solve\<close> panics.
\<close>

theorem C5_counterexample:
  "Solve exampleUnsolved [5] noHints = Panicked SolverDidNotInstantiateAllWires"
  by (simp add: solver_defs example_defs)

text \<open>
  Claim C5, amended. When the levels are solved without an error and the state is not
  valid, \<^verbatim>\<open>Solve\<close> panics (``solver didn't instantiate all wires''); it returns neither
  a vector nor an error.
\<close>

theorem C5_panic:
  assumes "length witness = NbPublicVariables cs + NbSecretVariables cs"
    and "newSolution (NbInternalVariables cs + NbSecretVariables cs + NbPublicVariables cs)
           (HintFunctions opt) (MHints cs) (Coefficients cs) = (s0, None)"
    and "parallelSolve cs (fillWitness s0 witness) (coefficientsNegInv cs) = Ok () s1"
    and "\<not> isValid s1"
  shows "Solve cs witness opt = Panicked SolverDidNotInstantiateAllWires"
  using assms by (simp add: Solve_def Let_def)

theorem C5_witness:
  "parallelSolve exampleUnsolved
      (fillWitness (fst (newSolution 3 Map.empty [] exampleCoefficients)) [5])
      (coefficientsNegInv exampleUnsolved) = Ok () stateUnsolved
   \<and> \<not> isValid stateUnsolved
   \<and> Solve exampleUnsolved [5] noHints = Panicked SolverDidNotInstantiateAllWires"
proof -
  have a: "length [5::rat] = NbPublicVariables exampleUnsolved + NbSecretVariables exampleUnsolved"
    by (simp add: example_defs)
  have b: "newSolution (NbInternalVariables exampleUnsolved + NbSecretVariables exampleUnsolved
              + NbPublicVariables exampleUnsolved) (HintFunctions noHints) (MHints exampleUnsolved)
              (Coefficients exampleUnsolved)
            = (fst (newSolution 3 Map.empty [] exampleCoefficients), None)"
    by (simp add: newSolution_def example_defs)
  have c: "parallelSolve exampleUnsolved
      (fillWitness (fst (newSolution 3 Map.empty [] exampleCoefficients)) [5])
      (coefficientsNegInv exampleUnsolved) = Ok () stateUnsolved"
    by (simp add: solver_defs example_defs stateUnsolved_def eval_nat_numeral)
  have d: "\<not> isValid stateUnsolved"
    by (simp add: isValid_def stateUnsolved_def)
  from C5_panic [OF a b c d] c d show ?thesis by simp
qed

end
